theory Spec2Isabelle
  imports Main
begin

section \<open>Python values, exceptions and the objects of asyncpg\<close>

text \<open>
  The module \<^verbatim>\<open>server/app/contrib/asyncpg/config.py\<close> wires an asyncpg pool into the
  life cycle of a Litestar application. Pools and connections are objects of asyncpg and
  are used through their methods only (duck typing), so an object is a handle and Python's
  \<^verbatim>\<open>None\<close> is a value of its own.
\<close>

datatype pyval = PyNone | Obj nat

text \<open>
  The exceptions the module can meet: the three built-in ones raised by the interpreter,
  Litestar's \<^verbatim>\<open>ImproperlyConfiguredException\<close>, and \<open>Raised n\<close> for an exception that a
  method of an asyncpg object raises.
\<close>

datatype error = KeyError | AttributeError | TypeError | ImproperlyConfiguredException | Raised nat

text \<open>
  Truth value of an object in \<^verbatim>\<open>if pool and session\<close>: asyncpg's Pool, Connection and
  PoolConnectionProxy define neither \<^verbatim>\<open>__bool__\<close> nor \<^verbatim>\<open>__len__\<close>, so every object is
  true and \<^verbatim>\<open>None\<close> is false.
\<close>

definition truthy :: "pyval \<Rightarrow> bool" where
  "truthy v = (v \<noteq> PyNone)"

text \<open>
  The dataclass \<^verbatim>\<open>PoolConfig\<close>; a field left at \<^verbatim>\<open>Empty\<close> is \<open>None\<close>. The remaining
  fields of the source (connection and record classes, the hooks, the loop) are passed to
  asyncpg in the same way and play no part below.
\<close>

record PoolConfig =
  dsn :: string
  min_size :: "int option"
  max_size :: "int option"
  max_queries :: "int option"

text \<open>
  Every call that reaches asyncpg is recorded, in order. \<open>Release p s\<close> stands for the
  coroutine of \<^verbatim>\<open>pool.release(session)\<close> being awaited, that is for the release really
  being run.
\<close>

datatype event =
    Acquire nat
  | Release nat pyval
  | Commit nat
  | Rollback nat
  | Close nat
  | CreatePool PoolConfig

text \<open>
  What asyncpg answers: for each method, the outcome of a call on the object with the
  given handle. Every asyncpg pool has \<^verbatim>\<open>acquire\<close>, \<^verbatim>\<open>release\<close> and \<^verbatim>\<open>close\<close>. Whether a
  connection object has a \<^verbatim>\<open>commit\<close> or a \<^verbatim>\<open>rollback\<close> attribute depends on its class:
  asyncpg's own \<^verbatim>\<open>Connection\<close> and \<^verbatim>\<open>PoolConnectionProxy\<close> have neither, a connection class
  given in the pool configuration may define them. So \<open>commit B c\<close> is \<open>None\<close> when object
  \<open>c\<close> has no such attribute, and \<open>Some r\<close> when it has the method and a call of it has the
  outcome \<open>r\<close>; likewise for \<open>rollback\<close>.
\<close>

record backend =
  acquire :: "nat \<Rightarrow> error + nat"
  release :: "nat \<Rightarrow> pyval \<Rightarrow> error option"
  commit :: "nat \<Rightarrow> error option option"
  rollback :: "nat \<Rightarrow> error option option"
  close :: "nat \<Rightarrow> error option"
  asyncpg_create_pool :: "PoolConfig \<Rightarrow> error + pyval"

section \<open>Constants of the module and of Litestar\<close>

definition POOL_SCOPE_KEY :: string where
  "POOL_SCOPE_KEY = ''_asyncpg_db_pool''"

definition SESSION_SCOPE_KEY :: string where
  "SESSION_SCOPE_KEY = ''_asyncpg_db_connection''"

definition HTTP_RESPONSE_START :: string where
  "HTTP_RESPONSE_START = ''http.response.start''"

definition HTTP_DISCONNECT :: string where
  "HTTP_DISCONNECT = ''http.disconnect''"

definition WEBSOCKET_DISCONNECT :: string where
  "WEBSOCKET_DISCONNECT = ''websocket.disconnect''"

definition WEBSOCKET_CLOSE :: string where
  "WEBSOCKET_CLOSE = ''websocket.close''"

definition SESSION_TERMINUS_ASGI_EVENTS :: "string set" where
  "SESSION_TERMINUS_ASGI_EVENTS =
     {HTTP_RESPONSE_START, HTTP_DISCONNECT, WEBSOCKET_DISCONNECT, WEBSOCKET_CLOSE}"

section \<open>The scope namespace and ASGI messages\<close>

text \<open>
  Litestar keeps its per-connection entries in one dictionary of the ASGI scope;
  \<^verbatim>\<open>get_litestar_scope_state\<close> is \<^verbatim>\<open>dict.get\<close> with default \<^verbatim>\<open>None\<close>,
  \<^verbatim>\<open>set_litestar_scope_state\<close> is an item assignment and
  \<^verbatim>\<open>delete_litestar_scope_state\<close> is \<^verbatim>\<open>del\<close>, which raises KeyError on a missing key.
\<close>

type_synonym scope = "string \<rightharpoonup> pyval"

definition get_litestar_scope_state :: "scope \<Rightarrow> string \<Rightarrow> pyval" where
  "get_litestar_scope_state scope key = (case scope key of None \<Rightarrow> PyNone | Some v \<Rightarrow> v)"

definition set_litestar_scope_state :: "scope \<Rightarrow> string \<Rightarrow> pyval \<Rightarrow> scope" where
  "set_litestar_scope_state scope key v = scope(key \<mapsto> v)"

definition delete_litestar_scope_state :: "scope \<Rightarrow> string \<Rightarrow> error + scope" where
  "delete_litestar_scope_state scope key =
     (case scope key of None \<Rightarrow> Inl KeyError | Some _ \<Rightarrow> Inr (scope(key := None)))"

text \<open>
  An ASGI message is a dictionary with a \<^verbatim>\<open>"type"\<close>; the response-start event also
  carries a \<^verbatim>\<open>"status"\<close>.
\<close>

record message =
  mtype :: string
  status :: "int option"

section \<open>Method calls and awaiting\<close>

text \<open>
  Calling the coroutine function \<^verbatim>\<open>pool.release(session)\<close> only builds a coroutine
  object; the release runs when that object is awaited. On \<^verbatim>\<open>None\<close> the attribute lookup
  raises AttributeError.
\<close>

datatype awaitable = ReleaseCoro nat pyval

definition pool_release :: "pyval \<Rightarrow> pyval \<Rightarrow> error + awaitable" where
  "pool_release pool session =
     (case pool of PyNone \<Rightarrow> Inl AttributeError | Obj p \<Rightarrow> Inr (ReleaseCoro p session))"

fun await :: "backend \<Rightarrow> awaitable \<Rightarrow> error option \<times> event list" where
  "await B (ReleaseCoro p s) = (release B p s, [Release p s])"

text \<open>
  \<^verbatim>\<open>asyncio.wait_for(aw, timeout)\<close> has two required positional parameters. A call that
  gives no timeout raises TypeError when it is made, so the awaitable is never awaited.
  With a timeout (\<^verbatim>\<open>None\<close> for no limit, or a number of seconds) the awaitable is awaited;
  the passing of time is not part of the model.
\<close>

datatype timeout_arg = NotGiven | Timeout "nat option"

definition wait_for :: "backend \<Rightarrow> awaitable \<Rightarrow> timeout_arg \<Rightarrow> error option \<times> event list" where
  "wait_for B aw t = (case t of NotGiven \<Rightarrow> (Some TypeError, []) | Timeout _ \<Rightarrow> await B aw)"

text \<open>
  \<^verbatim>\<open>await session.commit()\<close> and \<^verbatim>\<open>await session.rollback()\<close>: the attribute is looked up
  first, and an object without it raises AttributeError before any call is made.
\<close>

definition session_commit :: "backend \<Rightarrow> pyval \<Rightarrow> error option \<times> event list" where
  "session_commit B session =
     (case session of
        PyNone \<Rightarrow> (Some AttributeError, [])
      | Obj c \<Rightarrow>
          (case commit B c of
             None \<Rightarrow> (Some AttributeError, [])
           | Some r \<Rightarrow> (r, [Commit c])))"

definition session_rollback :: "backend \<Rightarrow> pyval \<Rightarrow> error option \<times> event list" where
  "session_rollback B session =
     (case session of
        PyNone \<Rightarrow> (Some AttributeError, [])
      | Obj c \<Rightarrow>
          (case rollback B c of
             None \<Rightarrow> (Some AttributeError, [])
           | Some r \<Rightarrow> (r, [Rollback c])))"

section \<open>The two before-send handlers\<close>

text \<open>
  A handler returns the exception it raises (if any), the scope namespace as it leaves it,
  and the calls it made.
\<close>

definition default_before_send_handler ::
  "backend \<Rightarrow> message \<Rightarrow> scope \<Rightarrow> error option \<times> scope \<times> event list" where
  "default_before_send_handler B message scope =
     (let session = get_litestar_scope_state scope SESSION_SCOPE_KEY;
          pool = get_litestar_scope_state scope POOL_SCOPE_KEY
      in if truthy pool \<and> truthy session \<and> mtype message \<in> SESSION_TERMINUS_ASGI_EVENTS then
           (case pool_release pool session of
              Inl e \<Rightarrow> (Some e, scope, [])
            | Inr coro \<Rightarrow>
                (case await B coro of
                   (Some e, tr) \<Rightarrow> (Some e, scope, tr)
                 | (None, tr) \<Rightarrow>
                     (case delete_litestar_scope_state scope SESSION_SCOPE_KEY of
                        Inl e \<Rightarrow> (Some e, scope, tr)
                      | Inr scope' \<Rightarrow> (None, scope', tr))))
         else (None, scope, []))"

text \<open>The body of the \<^verbatim>\<open>try\<close> block of the autocommit handler.\<close>

definition autocommit_try :: "backend \<Rightarrow> message \<Rightarrow> pyval \<Rightarrow> error option \<times> event list" where
  "autocommit_try B message session =
     (if session \<noteq> PyNone \<and> mtype message = HTTP_RESPONSE_START then
        (case status message of
           None \<Rightarrow> (Some KeyError, [])
         | Some st \<Rightarrow>
             if 200 \<le> st \<and> st < 300 then session_commit B session
             else session_rollback B session)
      else (None, []))"

text \<open>
  The \<^verbatim>\<open>finally\<close> block runs whatever the \<^verbatim>\<open>try\<close> block did. An exception raised in it
  replaces the pending one; when it ends normally the pending exception is raised again.
  The source calls \<^verbatim>\<open>asyncio.wait_for(pool.release(session))\<close>, with no timeout.
\<close>

definition autocommit_before_send_handler ::
  "backend \<Rightarrow> message \<Rightarrow> scope \<Rightarrow> error option \<times> scope \<times> event list" where
  "autocommit_before_send_handler B message scope =
     (let session = get_litestar_scope_state scope SESSION_SCOPE_KEY;
          pool = get_litestar_scope_state scope POOL_SCOPE_KEY;
          (e1, tr1) = autocommit_try B message session
      in if truthy session \<and> mtype message \<in> SESSION_TERMINUS_ASGI_EVENTS then
           (case pool_release pool session of
              Inl e \<Rightarrow> (Some e, scope, tr1)
            | Inr coro \<Rightarrow>
                (case wait_for B coro NotGiven of
                   (Some e, tr2) \<Rightarrow> (Some e, scope, tr1 @ tr2)
                 | (None, tr2) \<Rightarrow>
                     (case delete_litestar_scope_state scope SESSION_SCOPE_KEY of
                        Inl e \<Rightarrow> (Some e, scope, tr1 @ tr2)
                      | Inr scope' \<Rightarrow> (e1, scope', tr1 @ tr2))))
         else (e1, scope, tr1))"

section \<open>The configuration object\<close>

text \<open>
  The dataclass \<^verbatim>\<open>AsyncpgConfig\<close>. Its \<^verbatim>\<open>pool_instance\<close> is a pool or \<^verbatim>\<open>None\<close>; the
  handler and the JSON functions it also holds are not used by its methods.
\<close>

record AsyncpgConfig =
  pool_config :: "PoolConfig option"
  pool_dependency_key :: string
  session_dependency_key :: string
  pool_app_state_key :: string
  pool_instance :: pyval

text \<open>The application state of Litestar is a mutable mapping from names to values.\<close>

type_synonym state = "string \<rightharpoonup> pyval"

text \<open>
  \<^verbatim>\<open>pool_config_dict\<close>: the keyword arguments for asyncpg, which are the fields of the
  pool configuration that are not \<^verbatim>\<open>Empty\<close>; the configuration itself stands for them.
\<close>

definition pool_config_dict :: "AsyncpgConfig \<Rightarrow> error + PoolConfig" where
  "pool_config_dict self =
     (case pool_config self of
        Some pc \<Rightarrow> Inr pc
      | None \<Rightarrow> Inl ImproperlyConfiguredException)"

text \<open>
  \<^verbatim>\<open>create_pool\<close> returns its result (or the exception), the configuration object as the
  call leaves it, and the calls made.
\<close>

definition create_pool ::
  "backend \<Rightarrow> AsyncpgConfig \<Rightarrow> (error + pyval) \<times> AsyncpgConfig \<times> event list" where
  "create_pool B self =
     (if pool_instance self \<noteq> PyNone then (Inr (pool_instance self), self, [])
      else if pool_config self = None then (Inl ImproperlyConfiguredException, self, [])
      else
        (case pool_config_dict self of
           Inl e \<Rightarrow> (Inl e, self, [])
         | Inr kwargs \<Rightarrow>
             (case asyncpg_create_pool B kwargs of
                Inl e \<Rightarrow> (Inl e, self, [CreatePool kwargs])
              | Inr p \<Rightarrow>
                  (let self' = self\<lparr>pool_instance := p\<rparr>
                   in if p = PyNone
                      then (Inl ImproperlyConfiguredException, self', [CreatePool kwargs])
                      else (Inr p, self', [CreatePool kwargs])))))"

text \<open>\<^verbatim>\<open>provide_pool\<close> is \<^verbatim>\<open>state.get(key)\<close>: the value stored, \<^verbatim>\<open>None\<close> for a missing key.\<close>

definition provide_pool :: "AsyncpgConfig \<Rightarrow> state \<Rightarrow> error + pyval" where
  "provide_pool self st =
     Inr (case st (pool_app_state_key self) of None \<Rightarrow> PyNone | Some v \<Rightarrow> v)"

text \<open>\<^verbatim>\<open>pool.acquire()\<close>, awaited.\<close>

definition pool_acquire :: "backend \<Rightarrow> pyval \<Rightarrow> (error + pyval) \<times> event list" where
  "pool_acquire B pool =
     (case pool of
        PyNone \<Rightarrow> (Inl AttributeError, [])
      | Obj p \<Rightarrow>
          (case acquire B p of
             Inl e \<Rightarrow> (Inl e, [Acquire p])
           | Inr c \<Rightarrow> (Inr (Obj c), [Acquire p])))"

definition provide_connection ::
  "backend \<Rightarrow> AsyncpgConfig \<Rightarrow> state \<Rightarrow> scope \<Rightarrow> (error + pyval) \<times> scope \<times> event list" where
  "provide_connection B self st scope =
     (let connection = get_litestar_scope_state scope SESSION_SCOPE_KEY
      in if connection = PyNone then
           (case provide_pool self st of
              Inl e \<Rightarrow> (Inl e, scope, [])
            | Inr pool \<Rightarrow>
                (case pool_acquire B pool of
                   (Inl e, tr) \<Rightarrow> (Inl e, scope, tr)
                 | (Inr c, tr) \<Rightarrow>
                     (Inr c, set_litestar_scope_state scope SESSION_SCOPE_KEY c, tr)))
         else (Inr connection, scope, []))"

text \<open>
  \<^verbatim>\<open>on_shutdown\<close>: \<^verbatim>\<open>app.state.pop(key)\<close> is given no default, so a missing key raises
  KeyError; the value found is closed unless it is \<^verbatim>\<open>None\<close>.
\<close>

definition on_shutdown ::
  "backend \<Rightarrow> AsyncpgConfig \<Rightarrow> state \<Rightarrow> error option \<times> state \<times> event list" where
  "on_shutdown B self st =
     (case st (pool_app_state_key self) of
        None \<Rightarrow> (Some KeyError, st, [])
      | Some pool \<Rightarrow>
          (let st' = st(pool_app_state_key self := None)
           in case pool of
                PyNone \<Rightarrow> (None, st', [])
              | Obj p \<Rightarrow> (close B p, st', [Close p])))"

text \<open>
  \<^verbatim>\<open>on_startup\<close>, through \<^verbatim>\<open>update_app_state\<close> and \<^verbatim>\<open>create_app_state_items\<close>: the pool
  that \<^verbatim>\<open>create_pool\<close> returns is stored under the application state key.
\<close>

definition on_startup ::
  "backend \<Rightarrow> AsyncpgConfig \<Rightarrow> state \<Rightarrow> error option \<times> AsyncpgConfig \<times> state \<times> event list" where
  "on_startup B self st =
     (case create_pool B self of
        (Inl e, self', tr) \<Rightarrow> (Some e, self', st, tr)
      | (Inr p, self', tr) \<Rightarrow> (None, self', st(pool_app_state_key self' \<mapsto> p), tr))"

section \<open>Concrete objects for the examples\<close>

text \<open>
  A backend whose connections are of a class with \<^verbatim>\<open>commit\<close> and \<^verbatim>\<open>rollback\<close> and on which
  every call succeeds (pool \<open>p\<close> hands out connection \<open>p + 7\<close>); one whose \<^verbatim>\<open>commit\<close> and
  \<^verbatim>\<open>rollback\<close> raise; one whose \<^verbatim>\<open>release\<close> raises; and asyncpg as it is installed, whose
  connections have no \<^verbatim>\<open>commit\<close> and no \<^verbatim>\<open>rollback\<close>.
\<close>

definition ok_backend :: backend where
  "ok_backend =
     \<lparr>acquire = (\<lambda>p. Inr (p + 7)),
      release = (\<lambda>p s. None),
      commit = (\<lambda>c. Some None),
      rollback = (\<lambda>c. Some None),
      close = (\<lambda>p. None),
      asyncpg_create_pool = (\<lambda>kw. Inr (Obj 0))\<rparr>"

definition failing_commit_backend :: backend where
  "failing_commit_backend =
     ok_backend\<lparr>commit := (\<lambda>c. Some (Some (Raised 1))),
                rollback := (\<lambda>c. Some (Some (Raised 2)))\<rparr>"

definition failing_release_backend :: backend where
  "failing_release_backend = ok_backend\<lparr>release := (\<lambda>p s. Some (Raised 3))\<rparr>"

definition asyncpg_backend :: backend where
  "asyncpg_backend = ok_backend\<lparr>commit := (\<lambda>c. None), rollback := (\<lambda>c. None)\<rparr>"

definition example_pool_config :: PoolConfig where
  "example_pool_config =
     \<lparr>dsn = ''postgres://app@localhost/app'', min_size = None, max_size = None,
      max_queries = None\<rparr>"

definition default_config :: AsyncpgConfig where
  "default_config =
     \<lparr>pool_config = Some example_pool_config,
      pool_dependency_key = ''db_pool'',
      session_dependency_key = ''db_session'',
      pool_app_state_key = ''db_pool'',
      pool_instance = PyNone\<rparr>"

text \<open>A scope that holds connection 1 and its pool 0, and one that holds the connection only.\<close>

definition leased_scope :: scope where
  "leased_scope = [SESSION_SCOPE_KEY \<mapsto> Obj 1, POOL_SCOPE_KEY \<mapsto> Obj 0]"

definition session_only_scope :: scope where
  "session_only_scope = [SESSION_SCOPE_KEY \<mapsto> Obj 1]"


text \<open>Application states, scopes and messages used in the examples.\<close>

definition empty_state :: state where
  "empty_state = Map.empty"

definition pool_state :: state where
  "pool_state = [''db_pool'' \<mapsto> Obj 0]"

definition empty_scope :: scope where
  "empty_scope = Map.empty"

definition disconnect_message :: message where
  "disconnect_message = \<lparr>mtype = HTTP_DISCONNECT, status = None\<rparr>"

definition response_start :: "int \<Rightarrow> message" where
  "response_start st = \<lparr>mtype = HTTP_RESPONSE_START, status = Some st\<rparr>"

section \<open>Properties\<close>

lemmas names = POOL_SCOPE_KEY_def SESSION_SCOPE_KEY_def HTTP_RESPONSE_START_def
  HTTP_DISCONNECT_def WEBSOCKET_DISCONNECT_def WEBSOCKET_CLOSE_def
  SESSION_TERMINUS_ASGI_EVENTS_def

lemma get_scope_state_holds:
  "get_litestar_scope_state scope key = v \<Longrightarrow> v \<noteq> PyNone \<Longrightarrow> scope key = Some v"
  by (auto simp: get_litestar_scope_state_def split: option.splits)

subsection \<open>Acquiring: \<^verbatim>\<open>provide_connection\<close>\<close>

text \<open>
  Whatever it is given, \<^verbatim>\<open>provide_connection\<close> leaves the pool entry of the scope as it
  found it: the only entry it writes is the session entry.
\<close>

lemma provide_connection_pool_entry_unchanged:
  "fst (snd (provide_connection B self st scope)) POOL_SCOPE_KEY = scope POOL_SCOPE_KEY"
  by (auto simp: provide_connection_def provide_pool_def pool_acquire_def Let_def
      set_litestar_scope_state_def POOL_SCOPE_KEY_def SESSION_SCOPE_KEY_def
      split: option.splits sum.splits pyval.splits prod.splits)

text \<open>
  C1. The specification has \<^verbatim>\<open>provide_connection\<close> store the acquired connection under
  the session key together with a reference to the owning pool. On an empty scope and an
  application state that holds pool 0, the source acquires connection 7 from pool 0,
  stores it under the session key and returns it, but writes nothing under
  \<^verbatim>\<open>POOL_SCOPE_KEY\<close>: the pool entry that both handlers read is still \<^verbatim>\<open>None\<close>. The plain
  handler then finds no pool at the terminus signal and releases nothing.
\<close>

theorem provide_connection_does_not_store_pool:
  "provide_connection ok_backend default_config pool_state empty_scope
     = (Inr (Obj 7), [SESSION_SCOPE_KEY \<mapsto> Obj 7], [Acquire 0])
   \<and> get_litestar_scope_state
        (fst (snd (provide_connection ok_backend default_config pool_state empty_scope)))
        POOL_SCOPE_KEY = PyNone
   \<and> default_before_send_handler ok_backend disconnect_message
        (fst (snd (provide_connection ok_backend default_config pool_state empty_scope)))
      = (None, [SESSION_SCOPE_KEY \<mapsto> Obj 7], [])"
  by (simp add: provide_connection_def provide_pool_def pool_acquire_def
      default_before_send_handler_def truthy_def
      get_litestar_scope_state_def set_litestar_scope_state_def ok_backend_def
      default_config_def pool_state_def empty_scope_def disconnect_message_def names)

text \<open>
  C8. For every scope that already holds a connection, \<^verbatim>\<open>provide_connection\<close> returns that
  connection, leaves the scope as it is and makes no call to the pool. Hence, whatever a
  call returned, the next call on the scope it left returns the identical handle with no
  second \<^verbatim>\<open>acquire\<close>, whatever the application state and the pool would answer.
\<close>

theorem provide_connection_reuses_cached:
  "(get_litestar_scope_state scope SESSION_SCOPE_KEY = c \<and> c \<noteq> PyNone \<longrightarrow>
      provide_connection B self st scope = (Inr c, scope, []))
   \<and> (provide_connection B self st scope = (Inr c, scope1, tr1) \<longrightarrow>
      provide_connection B' self' st' scope1 = (Inr c, scope1, []))"
proof (intro conjI impI)
  assume "get_litestar_scope_state scope SESSION_SCOPE_KEY = c \<and> c \<noteq> PyNone"
  then show "provide_connection B self st scope = (Inr c, scope, [])"
    by (simp add: provide_connection_def)
next
  assume first: "provide_connection B self st scope = (Inr c, scope1, tr1)"
  have held: "get_litestar_scope_state scope1 SESSION_SCOPE_KEY = c \<and> c \<noteq> PyNone"
    using first
    by (auto simp: provide_connection_def provide_pool_def pool_acquire_def Let_def
        get_litestar_scope_state_def set_litestar_scope_state_def
        split: if_splits option.splits sum.splits pyval.splits prod.splits)
  then show "provide_connection B' self' st' scope1 = (Inr c, scope1, [])"
    by (simp add: provide_connection_def)
qed

theorem provide_connection_reuses_cached_witness:
  "provide_connection ok_backend default_config empty_state session_only_scope
     = (Inr (Obj 1), session_only_scope, [])
   \<and> provide_connection ok_backend default_config pool_state empty_scope
     = (Inr (Obj 7), [SESSION_SCOPE_KEY \<mapsto> Obj 7], [Acquire 0])
   \<and> provide_connection ok_backend default_config pool_state [SESSION_SCOPE_KEY \<mapsto> Obj 7]
     = (Inr (Obj 7), [SESSION_SCOPE_KEY \<mapsto> Obj 7], [])"
proof -
  have held: "get_litestar_scope_state session_only_scope SESSION_SCOPE_KEY = Obj 1
      \<and> Obj 1 \<noteq> PyNone"
    by (simp add: get_litestar_scope_state_def session_only_scope_def)
  have first: "provide_connection ok_backend default_config pool_state empty_scope
      = (Inr (Obj 7), [SESSION_SCOPE_KEY \<mapsto> Obj 7], [Acquire 0])"
    by (simp add: provide_connection_def provide_pool_def pool_acquire_def
        get_litestar_scope_state_def set_litestar_scope_state_def ok_backend_def
        default_config_def pool_state_def empty_scope_def)
  from provide_connection_reuses_cached
    [where scope = session_only_scope and c = "Obj 1" and B = ok_backend
      and self = default_config and st = empty_state]
  have a: "provide_connection ok_backend default_config empty_state session_only_scope
      = (Inr (Obj 1), session_only_scope, [])"
    using held by blast
  from provide_connection_reuses_cached
    [where scope = empty_scope and c = "Obj 7" and B = ok_backend and self = default_config
      and st = pool_state and ?scope1.0 = "[SESSION_SCOPE_KEY \<mapsto> Obj 7]"
      and ?tr1.0 = "[Acquire 0]" and B' = ok_backend and self' = default_config
      and st' = pool_state]
  have b: "provide_connection ok_backend default_config pool_state
       [SESSION_SCOPE_KEY \<mapsto> Obj 7] = (Inr (Obj 7), [SESSION_SCOPE_KEY \<mapsto> Obj 7], [])"
    using first by blast
  from a first b show ?thesis by simp
qed

subsection \<open>The plain policy\<close>

text \<open>
  C2, as the specification words it, has the plain policy clear both scope entries. On
  the scope that holds connection 1 and pool 0, at the client-disconnect signal, the
  handler releases the connection and ends normally, and the pool entry is still there.
\<close>

theorem default_handler_keeps_pool_entry:
  "truthy (get_litestar_scope_state leased_scope SESSION_SCOPE_KEY)
   \<and> truthy (get_litestar_scope_state leased_scope POOL_SCOPE_KEY)
   \<and> mtype disconnect_message \<in> SESSION_TERMINUS_ASGI_EVENTS
   \<and> fst (default_before_send_handler ok_backend disconnect_message leased_scope) = None
   \<and> snd (snd (default_before_send_handler ok_backend disconnect_message leased_scope))
       = [Release 0 (Obj 1)]
   \<and> fst (snd (default_before_send_handler ok_backend disconnect_message leased_scope))
       POOL_SCOPE_KEY = Some (Obj 0)"
  by (simp add: default_before_send_handler_def truthy_def get_litestar_scope_state_def
      delete_litestar_scope_state_def pool_release_def leased_scope_def
      disconnect_message_def ok_backend_def names)

text \<open>
  C2, amended. On any terminus signal, for every scope in which a connection and its pool
  are present, the plain policy awaits \<^verbatim>\<open>pool.release(session)\<close> exactly once and makes no
  other call. When the release returns, the handler deletes the session entry and ends
  normally; when the release raises, the exception leaves the handler and the scope is
  unchanged. In both cases the pool entry stays in the scope. When no connection is
  present the handler makes no call and leaves the scope as it is.
\<close>

theorem default_handler_releases_and_clears_session:
  "mtype message \<in> SESSION_TERMINUS_ASGI_EVENTS \<Longrightarrow>
   (get_litestar_scope_state scope SESSION_SCOPE_KEY = s \<and> s \<noteq> PyNone
      \<and> get_litestar_scope_state scope POOL_SCOPE_KEY = Obj p \<longrightarrow>
      default_before_send_handler B message scope
        = (release B p s,
           (if release B p s = None then scope(SESSION_SCOPE_KEY := None) else scope),
           [Release p s])
      \<and> fst (snd (default_before_send_handler B message scope)) POOL_SCOPE_KEY
          = Some (Obj p))
   \<and> (get_litestar_scope_state scope SESSION_SCOPE_KEY = PyNone \<longrightarrow>
      default_before_send_handler B message scope = (None, scope, []))"
proof (intro conjI impI)
  assume t: "mtype message \<in> SESSION_TERMINUS_ASGI_EVENTS"
    and h: "get_litestar_scope_state scope SESSION_SCOPE_KEY = s \<and> s \<noteq> PyNone
      \<and> get_litestar_scope_state scope POOL_SCOPE_KEY = Obj p"
  from h have s: "scope SESSION_SCOPE_KEY = Some s"
    by (simp add: get_scope_state_holds)
  from h have p: "scope POOL_SCOPE_KEY = Some (Obj p)"
    by (simp add: get_scope_state_holds)
  show r: "default_before_send_handler B message scope
        = (release B p s,
           (if release B p s = None then scope(SESSION_SCOPE_KEY := None) else scope),
           [Release p s])"
  proof (cases "release B p s")
    case None
    with t h s show ?thesis
      by (simp add: default_before_send_handler_def truthy_def pool_release_def
          delete_litestar_scope_state_def)
  next
    case (Some e)
    with t h s show ?thesis
      by (simp add: default_before_send_handler_def truthy_def pool_release_def)
  qed
  show "fst (snd (default_before_send_handler B message scope)) POOL_SCOPE_KEY
          = Some (Obj p)"
    using p by (simp add: r POOL_SCOPE_KEY_def SESSION_SCOPE_KEY_def)
next
  assume "get_litestar_scope_state scope SESSION_SCOPE_KEY = PyNone"
  then show "default_before_send_handler B message scope = (None, scope, [])"
    by (simp add: default_before_send_handler_def truthy_def)
qed

theorem default_handler_releases_and_clears_session_witness:
  "mtype disconnect_message \<in> SESSION_TERMINUS_ASGI_EVENTS
   \<and> default_before_send_handler ok_backend disconnect_message leased_scope
       = (None, leased_scope(SESSION_SCOPE_KEY := None), [Release 0 (Obj 1)])
   \<and> fst (snd (default_before_send_handler ok_backend disconnect_message leased_scope))
       POOL_SCOPE_KEY = Some (Obj 0)
   \<and> default_before_send_handler failing_release_backend disconnect_message leased_scope
       = (Some (Raised 3), leased_scope, [Release 0 (Obj 1)])
   \<and> default_before_send_handler ok_backend disconnect_message empty_scope
       = (None, empty_scope, [])"
proof -
  have t: "mtype disconnect_message \<in> SESSION_TERMINUS_ASGI_EVENTS"
    by (simp add: disconnect_message_def names)
  have h: "get_litestar_scope_state leased_scope SESSION_SCOPE_KEY = Obj 1
      \<and> Obj 1 \<noteq> PyNone
      \<and> get_litestar_scope_state leased_scope POOL_SCOPE_KEY = Obj 0"
    by (simp add: get_litestar_scope_state_def leased_scope_def names)
  have e: "get_litestar_scope_state empty_scope SESSION_SCOPE_KEY = PyNone"
    by (simp add: get_litestar_scope_state_def empty_scope_def)
  have ok: "release ok_backend 0 (Obj 1) = None"
    by (simp add: ok_backend_def)
  have bad: "release failing_release_backend 0 (Obj 1) = Some (Raised 3)"
    by (simp add: failing_release_backend_def)
  from default_handler_releases_and_clears_session
    [where message = disconnect_message and scope = leased_scope and s = "Obj 1"
      and p = 0 and B = ok_backend, OF t] h
  have a0: "default_before_send_handler ok_backend disconnect_message leased_scope
        = (release ok_backend 0 (Obj 1),
           (if release ok_backend 0 (Obj 1) = None
            then leased_scope(SESSION_SCOPE_KEY := None) else leased_scope),
           [Release 0 (Obj 1)])"
    and a1: "fst (snd (default_before_send_handler ok_backend disconnect_message leased_scope))
          POOL_SCOPE_KEY = Some (Obj 0)"
    by blast+
  have a: "default_before_send_handler ok_backend disconnect_message leased_scope
        = (None, leased_scope(SESSION_SCOPE_KEY := None), [Release 0 (Obj 1)])"
    using a0 ok by simp
  from default_handler_releases_and_clears_session
    [where message = disconnect_message and scope = leased_scope and s = "Obj 1"
      and p = 0 and B = failing_release_backend, OF t] h
  have b0: "default_before_send_handler failing_release_backend disconnect_message leased_scope
        = (release failing_release_backend 0 (Obj 1),
           (if release failing_release_backend 0 (Obj 1) = None
            then leased_scope(SESSION_SCOPE_KEY := None) else leased_scope),
           [Release 0 (Obj 1)])"
    by blast
  have b: "default_before_send_handler failing_release_backend disconnect_message leased_scope
        = (Some (Raised 3), leased_scope, [Release 0 (Obj 1)])"
    using b0 bad by simp
  from default_handler_releases_and_clears_session
    [where message = disconnect_message and scope = empty_scope and B = ok_backend, OF t]
  have c: "default_before_send_handler ok_backend disconnect_message empty_scope
        = (None, empty_scope, [])"
    using e by blast
  from t a a1 b c show ?thesis by blast
qed

subsection \<open>The autocommit policy\<close>

text \<open>
  For a connection whose class has both methods, the handler's calls at the response-start
  signal are the commit when the status lies in [200, 300) and the rollback when it does
  not, and nothing else.
\<close>

lemma autocommit_commit_or_rollback_when_supported:
  "get_litestar_scope_state scope SESSION_SCOPE_KEY = Obj c \<Longrightarrow>
   mtype message = HTTP_RESPONSE_START \<Longrightarrow> status message = Some st \<Longrightarrow>
   commit B c = Some r1 \<Longrightarrow> rollback B c = Some r2 \<Longrightarrow>
   snd (snd (autocommit_before_send_handler B message scope))
     = (if 200 \<le> st \<and> st < 300 then [Commit c] else [Rollback c])"
  by (auto simp: autocommit_before_send_handler_def autocommit_try_def session_commit_def
      session_rollback_def truthy_def pool_release_def wait_for_def Let_def
      SESSION_TERMINUS_ASGI_EVENTS_def
      split: pyval.splits option.splits sum.splits prod.splits)

text \<open>
  C3. The specification has the autocommit policy, on the response-start signal, call
  \<^verbatim>\<open>commit()\<close> for a status in [200, 300) and \<^verbatim>\<open>rollback()\<close> otherwise, for every scope
  holding a connection. The connections that asyncpg hands out have neither method: on
  the scope that holds such a connection 1 and pool 0, the \<^verbatim>\<open>try\<close> block raises
  AttributeError at the attribute lookup, for status 204 as for status 404 and 101, and
  the handler makes no call at all.
\<close>

theorem autocommit_no_commit_on_asyncpg_connection:
  "autocommit_try asyncpg_backend (response_start 204) (Obj 1) = (Some AttributeError, [])
   \<and> autocommit_try asyncpg_backend (response_start 404) (Obj 1) = (Some AttributeError, [])
   \<and> autocommit_before_send_handler asyncpg_backend (response_start 204) leased_scope
       = (Some TypeError, leased_scope, [])
   \<and> autocommit_before_send_handler asyncpg_backend (response_start 404) leased_scope
       = (Some TypeError, leased_scope, [])
   \<and> autocommit_before_send_handler asyncpg_backend (response_start 101) leased_scope
       = (Some TypeError, leased_scope, [])"
  by (simp add: autocommit_before_send_handler_def autocommit_try_def session_commit_def
      session_rollback_def truthy_def pool_release_def wait_for_def
      get_litestar_scope_state_def asyncpg_backend_def ok_backend_def leased_scope_def
      response_start_def names)

text \<open>
  C4. The specification has the release still performed, exactly once, when \<^verbatim>\<open>commit()\<close>
  or \<^verbatim>\<open>rollback()\<close> raises. On the scope that holds connection 1 and pool 0, at
  response-start with status 204 and a \<^verbatim>\<open>commit()\<close> that raises, the \<^verbatim>\<open>finally\<close> block of
  the source does run, but its call of \<^verbatim>\<open>asyncio.wait_for\<close> without a timeout raises
  TypeError: the only call made is the commit, no release is run, and the connection
  stays in the scope.
\<close>

theorem autocommit_failed_commit_no_release:
  "autocommit_before_send_handler failing_commit_backend (response_start 204) leased_scope
     = (Some TypeError, leased_scope, [Commit 1])"
  by (simp add: autocommit_before_send_handler_def autocommit_try_def session_commit_def
      truthy_def pool_release_def wait_for_def get_litestar_scope_state_def
      failing_commit_backend_def ok_backend_def leased_scope_def response_start_def names)

text \<open>
  C5. The specification has the release of the autocommit policy wrapped in a timeout of
  bounded duration. The source gives \<^verbatim>\<open>asyncio.wait_for\<close> the coroutine only and no
  duration: at the client-disconnect signal, on the scope that holds connection 1 and
  pool 0, the call raises TypeError, nothing is released and the scope is unchanged.
\<close>

theorem autocommit_release_without_timeout:
  "wait_for ok_backend (ReleaseCoro 0 (Obj 1)) NotGiven = (Some TypeError, [])
   \<and> autocommit_before_send_handler ok_backend disconnect_message leased_scope
     = (Some TypeError, leased_scope, [])"
  by (simp add: autocommit_before_send_handler_def autocommit_try_def
      truthy_def pool_release_def wait_for_def get_litestar_scope_state_def
      ok_backend_def leased_scope_def disconnect_message_def names)

subsection \<open>No double release\<close>








subsection \<open>The pool in the application state\<close>

lemma provide_connection_without_pool:
  "st (pool_app_state_key self) = None \<Longrightarrow>
   get_litestar_scope_state scope SESSION_SCOPE_KEY = PyNone \<Longrightarrow>
   provide_connection B self st scope = (Inl AttributeError, scope, [])"
  by (simp add: provide_connection_def provide_pool_def pool_acquire_def)

lemma provide_pool_missing_key:
  "st (pool_app_state_key self) = None \<Longrightarrow> provide_pool self st = Inr PyNone"
  by (simp add: provide_pool_def)

text \<open>
  C6. The specification has \<^verbatim>\<open>provide_pool\<close> fail with a configuration error when the pool
  was never created. On the empty application state, which has nothing under the pool
  key, the source's \<^verbatim>\<open>state.get(key)\<close> returns \<^verbatim>\<open>None\<close> and raises nothing, although the
  docstring and the return annotation of \<^verbatim>\<open>provide_pool\<close> promise a pool instance.
\<close>

theorem provide_pool_before_startup_returns_none:
  "empty_state (pool_app_state_key default_config) = None
   \<and> provide_pool default_config empty_state = Inr PyNone
   \<and> provide_pool default_config empty_state \<noteq> Inl ImproperlyConfiguredException"
  by (simp add: provide_pool_def empty_state_def)

text \<open>
  C7. The specification has \<^verbatim>\<open>on_shutdown\<close> do nothing, with no exception, when no pool was
  ever created. On the empty application state the source's \<^verbatim>\<open>app.state.pop(key)\<close>, which
  is given no default, raises KeyError before the test for \<^verbatim>\<open>None\<close> is reached.
\<close>

theorem on_shutdown_without_pool_raises:
  "on_shutdown ok_backend default_config empty_state = (Some KeyError, empty_state, [])"
  by (simp add: on_shutdown_def empty_state_def)

text \<open>
  C10. \<^verbatim>\<open>create_pool\<close> caches its result. When a pool instance is set in the configuration,
  the call returns it, leaves the configuration as it is and does not call the pool
  constructor. When a call has returned a pool, a call on the configuration it left
  returns the same pool, does not call the constructor whatever it would answer, and
  leaves the configuration as it is again, so the same holds of every later call.
\<close>

theorem create_pool_cached:
  "(pool_instance self \<noteq> PyNone \<longrightarrow> create_pool B self = (Inr (pool_instance self), self, []))
   \<and> (create_pool B self = (Inr p, self1, tr1) \<longrightarrow> create_pool B' self1 = (Inr p, self1, []))"
proof (intro conjI impI)
  assume "pool_instance self \<noteq> PyNone"
  then show "create_pool B self = (Inr (pool_instance self), self, [])"
    by (simp add: create_pool_def)
next
  assume first: "create_pool B self = (Inr p, self1, tr1)"
  then have "pool_instance self1 = p \<and> p \<noteq> PyNone"
    by (auto simp: create_pool_def pool_config_dict_def Let_def
        split: if_splits option.splits sum.splits)
  then show "create_pool B' self1 = (Inr p, self1, [])"
    by (simp add: create_pool_def)
qed

theorem create_pool_cached_witness:
  "create_pool ok_backend (default_config\<lparr>pool_instance := Obj 5\<rparr>)
     = (Inr (Obj 5), default_config\<lparr>pool_instance := Obj 5\<rparr>, [])
   \<and> create_pool ok_backend default_config
     = (Inr (Obj 0), default_config\<lparr>pool_instance := Obj 0\<rparr>, [CreatePool example_pool_config])
   \<and> create_pool failing_commit_backend (default_config\<lparr>pool_instance := Obj 0\<rparr>)
     = (Inr (Obj 0), default_config\<lparr>pool_instance := Obj 0\<rparr>, [])"
proof -
  have supplied: "pool_instance (default_config\<lparr>pool_instance := Obj 5\<rparr>) \<noteq> PyNone"
    by simp
  have first: "create_pool ok_backend default_config
     = (Inr (Obj 0), default_config\<lparr>pool_instance := Obj 0\<rparr>, [CreatePool example_pool_config])"
    by (simp add: create_pool_def pool_config_dict_def default_config_def ok_backend_def)
  from create_pool_cached
    [where self = "default_config\<lparr>pool_instance := Obj 5\<rparr>" and B = ok_backend]
  have a: "create_pool ok_backend (default_config\<lparr>pool_instance := Obj 5\<rparr>)
     = (Inr (Obj 5), default_config\<lparr>pool_instance := Obj 5\<rparr>, [])"
    using supplied by simp
  from create_pool_cached
    [where self = default_config and B = ok_backend and p = "Obj 0"
      and ?self1.0 = "default_config\<lparr>pool_instance := Obj 0\<rparr>"
      and ?tr1.0 = "[CreatePool example_pool_config]" and B' = failing_commit_backend]
  have b: "create_pool failing_commit_backend (default_config\<lparr>pool_instance := Obj 0\<rparr>)
     = (Inr (Obj 0), default_config\<lparr>pool_instance := Obj 0\<rparr>, [])"
    using first by blast
  from a first b show ?thesis by simp
qed

end
